theory Spec2Isabelle
  imports Complex_Main "HOL-Library.Word" "HOL-Library.Sublist"
begin

section \<open>Python values and exceptions\<close>

text \<open>
  The values that travel through the binding: JSON-like Python values. A \<open>dict\<close> with
  string keys is an association list in insertion order; its keys are distinct in Python.
\<close>

datatype pyvalue =
    PNone
  | PBool bool
  | PInt int
  | PFloat real
  | PStr string
  | PList "pyvalue list"
  | PDict "(string \<times> pyvalue) list"

text \<open>
  The exceptions the sources raise. \<open>Exception\<close> is Python's built-in base class with its
  single argument; \<open>TypeError\<close> is what a call raises when a keyword argument is given twice.
\<close>

datatype py_error =
    Exception pyvalue
  | ValueError string
  | RuntimeError string
  | TypeError string
  | KeyError string
  | OSError string

text \<open>The name of the class of an exception, \<^verbatim>\<open>type(e).__name__\<close>.\<close>

fun exception_class :: "py_error \<Rightarrow> string" where
  "exception_class (Exception _) = ''Exception''"
| "exception_class (ValueError _) = ''ValueError''"
| "exception_class (RuntimeError _) = ''RuntimeError''"
| "exception_class (TypeError _) = ''TypeError''"
| "exception_class (KeyError _) = ''KeyError''"
| "exception_class (OSError _) = ''OSError''"

text \<open>Python truthiness, as used by \<^verbatim>\<open>params or {}\<close>.\<close>

fun truthy :: "pyvalue \<Rightarrow> bool" where
  "truthy PNone = False"
| "truthy (PBool b) = b"
| "truthy (PInt i) = (i \<noteq> 0)"
| "truthy (PFloat r) = (r \<noteq> 0)"
| "truthy (PStr s) = (s \<noteq> [])"
| "truthy (PList xs) = (xs \<noteq> [])"
| "truthy (PDict kvs) = (kvs \<noteq> [])"

definition py_or :: "pyvalue \<Rightarrow> pyvalue \<Rightarrow> pyvalue" where
  "py_or a b = (if truthy a then a else b)"

text \<open>
  Lookup in a dict value, with \<open>None\<close> for the absent key, and the subscript
  \<^verbatim>\<open>d[k]\<close>, which raises \<^verbatim>\<open>KeyError\<close> then.
\<close>

fun dict_get :: "pyvalue \<Rightarrow> string \<Rightarrow> pyvalue option" where
  "dict_get (PDict kvs) k = map_of kvs k"
| "dict_get _ k = None"

definition dict_item :: "pyvalue \<Rightarrow> string \<Rightarrow> py_error + pyvalue" where
  "dict_item d k = (case dict_get d k of None \<Rightarrow> Inl (KeyError k) | Some v \<Rightarrow> Inr v)"

fun dict_keys :: "pyvalue \<Rightarrow> string list" where
  "dict_keys (PDict kvs) = map fst kvs"
| "dict_keys _ = []"

section \<open>ASCII case conversion of \<^verbatim>\<open>str.lower\<close> and \<^verbatim>\<open>str.capitalize\<close>\<close>

definition ascii_uppercase :: string where
  "ascii_uppercase = ''ABCDEFGHIJKLMNOPQRSTUVWXYZ''"

definition ascii_lowercase :: string where
  "ascii_lowercase = ''abcdefghijklmnopqrstuvwxyz''"

definition lower_char :: "char \<Rightarrow> char" where
  "lower_char c =
     (case map_of (zip ascii_uppercase ascii_lowercase) c of Some d \<Rightarrow> d | None \<Rightarrow> c)"

definition upper_char :: "char \<Rightarrow> char" where
  "upper_char c =
     (case map_of (zip ascii_lowercase ascii_uppercase) c of Some d \<Rightarrow> d | None \<Rightarrow> c)"

definition str_lower :: "string \<Rightarrow> string" where
  "str_lower s = map lower_char s"

definition str_capitalize :: "string \<Rightarrow> string" where
  "str_capitalize s = (case s of [] \<Rightarrow> [] | c # cs \<Rightarrow> upper_char c # map lower_char cs)"

section \<open>Library resolution (\<^verbatim>\<open>tonsdk/lib.py\<close>, module level)\<close>

text \<open>
  What the module reads from its surroundings: the path separator of \<^verbatim>\<open>os.path\<close>,
  the directory of the source file (\<^verbatim>\<open>BASE_DIR\<close>) and the value of
  \<^verbatim>\<open>platform.system()\<close>.
\<close>

record host =
  path_sep :: string
  BASE_DIR :: string
  platform_system :: string

text \<open>
  \<^verbatim>\<open>os.path.join\<close> of two components, by the rule of \<^verbatim>\<open>posixpath\<close> with the
  separator of the host: an absolute second component replaces the first, a first component
  that is empty or ends in the separator is extended directly.
\<close>

definition os_path_join :: "string \<Rightarrow> string \<Rightarrow> string \<Rightarrow> string" where
  "os_path_join sep a b =
     (if sep \<noteq> [] \<and> prefix sep b then b
      else if a = [] \<or> suffix sep a then a @ b
      else a @ sep @ b)"

definition LIB_VERSION :: string where
  "LIB_VERSION = ''0.25.0''"

definition LIB_DIR :: "host \<Rightarrow> string" where
  "LIB_DIR h = os_path_join (path_sep h) (BASE_DIR h) ''bin''"

definition LIB_FILENAME :: string where
  "LIB_FILENAME = ''ton-rust-client-'' @ LIB_VERSION"

definition lib_ext_dict :: "(string \<times> string) list" where
  "lib_ext_dict = [(''windows'', ''dll''), (''darwin'', ''dylib''), (''linux'', ''so'')]"

definition get_lib_basename :: "host \<Rightarrow> py_error + string" where
  \<open>get_lib_basename h =
     (let plt = str_lower (platform_system h) in
      case map_of lib_ext_dict plt of
        None \<Rightarrow>
          Inl (RuntimeError (''No library for current platform "'' @ str_capitalize plt @ ''"''))
      | Some ext \<Rightarrow>
          Inr (os_path_join (path_sep h) (LIB_DIR h) (LIB_FILENAME @ ''.'' @ ext)))\<close>

section \<open>The native library and the record of foreign calls\<close>

text \<open>
  The engine is a shared object loaded through \<^verbatim>\<open>ctypes\<close>; its five entry points are the
  fields of \<open>native_lib\<close>, acting on an engine state \<open>'e\<close> that the binding never inspects.
  \<^verbatim>\<open>tc_create_context\<close> returns a C \<^verbatim>\<open>int\<close>; a response pointer is an address.
\<close>

type_synonym ctx = "32 word"
type_synonym ptr = nat

record 'e native_lib =
  tc_create_context :: "'e \<Rightarrow> int \<times> 'e"
  tc_destroy_context :: "ctx \<Rightarrow> 'e \<Rightarrow> 'e"
  tc_json_request :: "ctx \<Rightarrow> string \<Rightarrow> string \<Rightarrow> 'e \<Rightarrow> ptr \<times> 'e"
  tc_read_json_response :: "ptr \<Rightarrow> 'e \<Rightarrow> bool \<times> string"
  tc_destroy_json_response :: "ptr \<Rightarrow> 'e \<Rightarrow> 'e"

text \<open>
  Every crossing of the foreign-function boundary is recorded, in order; so is every
  \<^verbatim>\<open>request\<close> that \<^verbatim>\<open>tonsdk/client.py\<close> hands to its module base class.
\<close>

datatype ffi_call =
    TcCreateContext
  | TcDestroyContext ctx
  | TcJsonRequest ctx string string
  | TcReadJsonResponse ptr
  | TcDestroyJsonResponse ptr
  | ModuleRequest ctx string "(string \<times> pyvalue) list"

record 'e world =
  engine :: 'e
  calls :: "ffi_call list"

definition ffi_create_context :: "'e native_lib \<Rightarrow> 'e world \<Rightarrow> int \<times> 'e world" where
  "ffi_create_context l w =
     (let (r, e') = tc_create_context l (engine w)
      in (r, \<lparr>engine = e', calls = calls w @ [TcCreateContext]\<rparr>))"

definition ffi_destroy_context :: "'e native_lib \<Rightarrow> ctx \<Rightarrow> 'e world \<Rightarrow> 'e world" where
  "ffi_destroy_context l c w =
     \<lparr>engine = tc_destroy_context l c (engine w), calls = calls w @ [TcDestroyContext c]\<rparr>"

definition ffi_json_request ::
  "'e native_lib \<Rightarrow> ctx \<Rightarrow> string \<Rightarrow> string \<Rightarrow> 'e world \<Rightarrow> ptr \<times> 'e world" where
  "ffi_json_request l c m p w =
     (let (r, e') = tc_json_request l c m p (engine w)
      in (r, \<lparr>engine = e', calls = calls w @ [TcJsonRequest c m p]\<rparr>))"

definition ffi_read_json_response ::
  "'e native_lib \<Rightarrow> ptr \<Rightarrow> 'e world \<Rightarrow> (bool \<times> string) \<times> 'e world" where
  "ffi_read_json_response l r w =
     (tc_read_json_response l r (engine w), w\<lparr>calls := calls w @ [TcReadJsonResponse r]\<rparr>)"

definition ffi_destroy_json_response :: "'e native_lib \<Rightarrow> ptr \<Rightarrow> 'e world \<Rightarrow> 'e world" where
  "ffi_destroy_json_response l r w =
     \<lparr>engine = tc_destroy_json_response l r (engine w),
      calls = calls w @ [TcDestroyJsonResponse r]\<rparr>"

section \<open>\<^verbatim>\<open>TonClient\<close> of \<^verbatim>\<open>tonsdk/lib.py\<close>\<close>

text \<open>
  The object holds the loaded library and the context handle,
  \<^verbatim>\<open>ctypes.c_uint32(context)\<close>: the C \<^verbatim>\<open>int\<close> reduced modulo \<open>2 ^ 32\<close>.
\<close>

record 'e ton_client =
  lib :: "'e native_lib"
  context' :: ctx

definition TYPE_TEXT :: string where "TYPE_TEXT = ''text''"
definition TYPE_HEX :: string where "TYPE_HEX = ''hex''"
definition TYPE_BASE64 :: string where "TYPE_BASE64 = ''base64''"

text \<open>\<^verbatim>\<open>_create_context\<close>\<close>

definition priv_create_context :: "'e native_lib \<Rightarrow> 'e world \<Rightarrow> ctx \<times> 'e world" where
  "priv_create_context l w =
     (let (c, w') = ffi_create_context l w in (word_of_int c, w'))"

text \<open>
  \<^verbatim>\<open>__init__(self, lib_path)\<close>: \<^verbatim>\<open>ctypes.cdll.LoadLibrary\<close> is the loader, which
  raises \<^verbatim>\<open>OSError\<close> for a path it cannot load.
\<close>

definition TonClient_init ::
  "(string \<Rightarrow> py_error + 'e native_lib) \<Rightarrow> string \<Rightarrow> 'e world
     \<Rightarrow> (py_error + 'e ton_client) \<times> 'e world" where
  "TonClient_init LoadLibrary lib_path w =
     (case LoadLibrary lib_path of
        Inl err \<Rightarrow> (Inl err, w)
      | Inr l \<Rightarrow>
          (let (c, w') = priv_create_context l w
           in (Inr \<lparr>lib = l, context' = c\<rparr>, w')))"

text \<open>
  \<^verbatim>\<open>TonClient()\<close> with the default \<^verbatim>\<open>lib_path = get_lib_basename()\<close>. Python evaluates
  the default when the class body runs, so a failure of \<open>get_lib_basename\<close> comes first.
\<close>

definition TonClient_default ::
  "host \<Rightarrow> (string \<Rightarrow> py_error + 'e native_lib) \<Rightarrow> 'e world
     \<Rightarrow> (py_error + 'e ton_client) \<times> 'e world" where
  "TonClient_default h LoadLibrary w =
     (case get_lib_basename h of
        Inl err \<Rightarrow> (Inl err, w)
      | Inr lib_path \<Rightarrow> TonClient_init LoadLibrary lib_path w)"

text \<open>\<^verbatim>\<open>_destroy_context(self, context)\<close>: the object itself is left as it is.\<close>

definition priv_destroy_context :: "'e ton_client \<Rightarrow> ctx \<Rightarrow> 'e world \<Rightarrow> 'e world" where
  "priv_destroy_context cl c w = ffi_destroy_context (lib cl) c w"

text \<open>
  \<^verbatim>\<open>_request(self, method_name, params)\<close>. \<open>dumps\<close> is \<^verbatim>\<open>json.dumps\<close>;
  \<^verbatim>\<open>InteropString.from_string\<close> passes the text on with its length. The JSON field of the
  response that was read is handed back as it is, under the key \<^verbatim>\<open>result\<close>.
\<close>

definition priv_request ::
  "(pyvalue \<Rightarrow> string) \<Rightarrow> 'e ton_client \<Rightarrow> string \<Rightarrow> pyvalue \<Rightarrow> 'e world
     \<Rightarrow> pyvalue \<times> 'e world" where
  "priv_request dumps cl method_name params w =
     (let params' = dumps (py_or params (PDict []));
          (response, w1) = ffi_json_request (lib cl) (context' cl) method_name params' w;
          (rd, w2) = ffi_read_json_response (lib cl) response w1;
          is_success = fst rd;
          response_json = snd rd;
          w3 = ffi_destroy_json_response (lib cl) response w2
      in (PDict [(''success'', PBool is_success), (''result'', PStr response_json)], w3))"

text \<open>
  What the engine answers to a request: the response that \<^verbatim>\<open>tc_read_json_response\<close>
  yields at the pointer \<^verbatim>\<open>tc_json_request\<close> returned (success flag, JSON text).
\<close>

definition engine_answer ::
  "(pyvalue \<Rightarrow> string) \<Rightarrow> 'e ton_client \<Rightarrow> string \<Rightarrow> pyvalue \<Rightarrow> 'e world \<Rightarrow> bool \<times> string" where
  "engine_answer dumps cl method_name params w =
     (let (response, e1) =
            tc_json_request (lib cl) (context' cl) method_name
              (dumps (py_or params (PDict []))) (engine w)
      in tc_read_json_response (lib cl) response e1)"

text \<open>The address of that response.\<close>

definition response_ptr ::
  "(pyvalue \<Rightarrow> string) \<Rightarrow> 'e ton_client \<Rightarrow> string \<Rightarrow> pyvalue \<Rightarrow> 'e world \<Rightarrow> ptr" where
  "response_ptr dumps cl method_name params w =
     fst (tc_json_request (lib cl) (context' cl) method_name
            (dumps (py_or params (PDict []))) (engine w))"

text \<open>\<^verbatim>\<open>_str_type_dict(self, string, fmt)\<close>\<close>

definition priv_str_type_dict :: "string \<Rightarrow> string \<Rightarrow> py_error + pyvalue" where
  "priv_str_type_dict string fmt =
     (if fmt = TYPE_BASE64 then Inr (PDict [(''base64'', PStr string)])
      else if fmt = TYPE_HEX then Inr (PDict [(''hex'', PStr string)])
      else if fmt = TYPE_TEXT then Inr (PDict [(''text'', PStr string)])
      else Inl (ValueError (''One of '' @ [CHR 0x27] @ ''base64, hex, text'' @ [CHR 0x27]
                              @ '' should be provided'')))"

text \<open>
  \<^verbatim>\<open>request(self, method, params=None, raise_exception=True, **kwargs)\<close>; the extra
  keyword arguments are not used. \<^verbatim>\<open>result["success"]\<close> is read only when
  \<^verbatim>\<open>raise_exception\<close> is true, as \<^verbatim>\<open>and\<close> evaluates its right operand only then.
\<close>

definition request ::
  "(pyvalue \<Rightarrow> string) \<Rightarrow> 'e ton_client \<Rightarrow> string \<Rightarrow> pyvalue \<Rightarrow> bool \<Rightarrow> 'e world
     \<Rightarrow> (py_error + pyvalue) \<times> 'e world" where
  "request dumps cl method params raise_exception w =
     (let (result, w') = priv_request dumps cl method params w
      in if raise_exception
         then (case dict_item result ''success'' of
                 Inl err \<Rightarrow> (Inl err, w')
               | Inr success \<Rightarrow>
                   (if \<not> truthy success
                    then (case dict_item result ''result'' of
                            Inl err \<Rightarrow> (Inl err, w')
                          | Inr payload \<Rightarrow> (Inl (Exception payload), w'))
                    else (dict_item result ''result'', w')))
         else (dict_item result ''result'', w'))"

text \<open>
  The two attribute reads of \<^verbatim>\<open>_request\<close>, \<^verbatim>\<open>read.is_success\<close> and
  \<^verbatim>\<open>read.json\<close>, on the \<^verbatim>\<open>InteropJsonResponse\<close> that
  \<^verbatim>\<open>tc_read_json_response\<close> returned. The class is declared in
  \<^verbatim>\<open>tonsdk.ton_types\<close>, which is not among the sources: each read is a parameter here,
  from the response to the Python value it yields, and it may raise.
\<close>

record interop_reads =
  read_is_success :: "bool \<times> string \<Rightarrow> py_error + pyvalue"
  read_json :: "bool \<times> string \<Rightarrow> py_error + pyvalue"

text \<open>
  \<^verbatim>\<open>_request\<close> with these reads. The body has no \<^verbatim>\<open>try\<close>: an exception leaves
  it at the statement that raised, and the statements after it, the call of
  \<^verbatim>\<open>tc_destroy_json_response\<close> among them, do not run.
\<close>

definition priv_request_reading ::
  "interop_reads \<Rightarrow> (pyvalue \<Rightarrow> string) \<Rightarrow> 'e ton_client \<Rightarrow> string \<Rightarrow> pyvalue \<Rightarrow> 'e world
     \<Rightarrow> (py_error + pyvalue) \<times> 'e world" where
  "priv_request_reading T dumps cl method_name params w =
     (let params' = dumps (py_or params (PDict []));
          (response, w1) = ffi_json_request (lib cl) (context' cl) method_name params' w;
          (rd, w2) = ffi_read_json_response (lib cl) response w1
      in case read_is_success T rd of
           Inl err \<Rightarrow> (Inl err, w2)
         | Inr is_success \<Rightarrow>
             (case read_json T rd of
                Inl err \<Rightarrow> (Inl err, w2)
              | Inr response_json \<Rightarrow>
                  (let w3 = ffi_destroy_json_response (lib cl) response w2
                   in (Inr (PDict [(''success'', is_success), (''result'', response_json)]),
                       w3))))"

text \<open>
  Reads that cannot raise, as plain structure fields are: with them
  \<open>priv_request_reading\<close> is \<open>priv_request\<close>.
\<close>

definition plain_reads :: interop_reads where
  "plain_reads =
     \<lparr>read_is_success = (\<lambda>rd. Inr (PBool (fst rd))), read_json = (\<lambda>rd. Inr (PStr (snd rd)))\<rparr>"

text \<open>\<^verbatim>\<open>setup(self, settings)\<close> and \<^verbatim>\<open>version(self)\<close>\<close>

definition TonClient_setup ::
  "(pyvalue \<Rightarrow> string) \<Rightarrow> 'e ton_client \<Rightarrow> pyvalue \<Rightarrow> 'e world
     \<Rightarrow> (py_error + pyvalue) \<times> 'e world" where
  "TonClient_setup dumps cl settings w = request dumps cl ''setup'' settings True w"

definition TonClient_version ::
  "(pyvalue \<Rightarrow> string) \<Rightarrow> 'e ton_client \<Rightarrow> 'e world \<Rightarrow> (py_error + pyvalue) \<times> 'e world" where
  "TonClient_version dumps cl w = request dumps cl ''version'' PNone True w"

text \<open>The defaults of \<^verbatim>\<open>tonsdk/lib.py\<close>, and \<^verbatim>\<open>setup()\<close> called without settings.\<close>

definition DEVNET_BASE_URL :: string where "DEVNET_BASE_URL = ''net.ton.dev''"
definition MAINNET_BASE_URL :: string where "MAINNET_BASE_URL = ''main.ton.dev''"

definition TON_CLIENT_DEFAULT_SETUP :: "(string \<times> pyvalue) list" where
  "TON_CLIENT_DEFAULT_SETUP =
     [(''baseUrl'', PStr DEVNET_BASE_URL),
      (''messageRetriesCount'', PInt 1),
      (''messageExpirationTimeout'', PInt 50000),
      (''messageExpirationTimeoutGrowFactor'', PFloat 1.5),
      (''messageProcessingTimeout'', PInt 50000),
      (''messageProcessingTimeoutGrowFactor'', PFloat 1.5),
      (''waitForTimeout'', PInt 30000),
      (''accessKey'', PStr [])]"

definition TonClient_setup_default ::
  "(pyvalue \<Rightarrow> string) \<Rightarrow> 'e ton_client \<Rightarrow> 'e world \<Rightarrow> (py_error + pyvalue) \<times> 'e world" where
  "TonClient_setup_default dumps cl w = TonClient_setup dumps cl (PDict TON_CLIENT_DEFAULT_SETUP) w"

section \<open>\<^verbatim>\<open>TonClient\<close> of \<^verbatim>\<open>tonsdk/client.py\<close>\<close>

definition TON_CLIENT_DEFAULT_SETUP_client :: "(string \<times> pyvalue) list" where
  "TON_CLIENT_DEFAULT_SETUP_client =
     [(''servers'', PList [PStr ''http://localhost'']),
      (''messageRetriesCount'', PInt 1),
      (''messageExpirationTimeout'', PInt 50000),
      (''messageExpirationTimeoutGrowFactor'', PFloat 1.5),
      (''messageProcessingTimeout'', PInt 50000),
      (''messageProcessingTimeoutGrowFactor'', PFloat 1.5),
      (''waitForTimeout'', PInt 30000),
      (''accessKey'', PStr [])]"

text \<open>
  \<^verbatim>\<open>d[k] = v\<close> on an insertion-ordered dict, and the display \<^verbatim>\<open>{**a, **b}\<close>: the
  entries of \<open>a\<close>, then each entry of \<open>b\<close> stored in turn.
\<close>

fun dict_set :: "'k \<Rightarrow> 'v \<Rightarrow> ('k \<times> 'v) list \<Rightarrow> ('k \<times> 'v) list" where
  "dict_set k v [] = [(k, v)]"
| "dict_set k v ((k', v') # kvs) =
     (if k = k' then (k, v) # kvs else (k', v') # dict_set k v kvs)"

definition dict_merge :: "('k \<times> 'v) list \<Rightarrow> ('k \<times> 'v) list \<Rightarrow> ('k \<times> 'v) list" where
  "dict_merge a b = fold (\<lambda>(k, v) d. dict_set k v d) b a"

text \<open>
  The module \<^verbatim>\<open>tonsdk.bindings.lib\<close> (\<^verbatim>\<open>tc_create_context\<close>, \<^verbatim>\<open>tc_destroy_context\<close>)
  and the class \<^verbatim>\<open>TonModule\<close> (\<^verbatim>\<open>request\<close>) are imported by \<^verbatim>\<open>client.py\<close>; they are
  parameters here, acting on the engine state.
\<close>

record 'e bindings =
  bindings_create_context :: "'e \<Rightarrow> ctx \<times> 'e"
  bindings_destroy_context :: "ctx \<Rightarrow> 'e \<Rightarrow> 'e"
  TonModule_request ::
    "ctx \<Rightarrow> string \<Rightarrow> (string \<times> pyvalue) list \<Rightarrow> 'e \<Rightarrow> (py_error + pyvalue) \<times> 'e"

definition call_create_context :: "'e bindings \<Rightarrow> 'e world \<Rightarrow> ctx \<times> 'e world" where
  "call_create_context b w =
     (let (c, e') = bindings_create_context b (engine w)
      in (c, \<lparr>engine = e', calls = calls w @ [TcCreateContext]\<rparr>))"

definition call_destroy_context :: "'e bindings \<Rightarrow> ctx \<Rightarrow> 'e world \<Rightarrow> 'e world" where
  "call_destroy_context b c w =
     \<lparr>engine = bindings_destroy_context b c (engine w),
      calls = calls w @ [TcDestroyContext c]\<rparr>"

definition call_request ::
  "'e bindings \<Rightarrow> ctx \<Rightarrow> string \<Rightarrow> (string \<times> pyvalue) list \<Rightarrow> 'e world
     \<Rightarrow> (py_error + pyvalue) \<times> 'e world" where
  "call_request b c method params w =
     (let (r, e') = TonModule_request b c method params (engine w)
      in (r, \<lparr>engine = e', calls = calls w @ [ModuleRequest c method params]\<rparr>))"

text \<open>A module object (\<^verbatim>\<open>TonClientBase\<close>, \<^verbatim>\<open>TonCrypto\<close>, ...) is built from its context.\<close>

record ton_module =
  module_ctx :: ctx

text \<open>
  \<^verbatim>\<open>TonClientBase.setup(self, settings)\<close> is \<^verbatim>\<open>self.request(method="setup", **settings)\<close>:
  a key \<^verbatim>\<open>method\<close> among the settings is a keyword argument given twice, which Python
  refuses at the call. The method has no \<^verbatim>\<open>return\<close>.
\<close>

definition TonClientBase_setup ::
  "'e bindings \<Rightarrow> ton_module \<Rightarrow> (string \<times> pyvalue) list \<Rightarrow> 'e world
     \<Rightarrow> (py_error + pyvalue) \<times> 'e world" where
  "TonClientBase_setup b self settings w =
     (if ''method'' \<in> fst ` set settings
      then (Inl (TypeError ''got multiple values for keyword argument method''), w)
      else (case call_request b (module_ctx self) ''setup'' settings w of
              (Inl err, w') \<Rightarrow> (Inl err, w')
            | (Inr _, w') \<Rightarrow> (Inr PNone, w')))"

text \<open>
  \<^verbatim>\<open>TonClient.__init__(self, **config)\<close>: \<open>config\<close> collects the keyword arguments, so a
  keyword \<^verbatim>\<open>self\<close> clashes with the first parameter before the body runs.
\<close>

record ton_client_c =
  priv_ctx :: ctx
  base :: ton_module
  crypto :: ton_module
  queries :: ton_module
  contracts :: ton_module

definition TonClient_new ::
  "'e bindings \<Rightarrow> (string \<times> pyvalue) list \<Rightarrow> 'e world
     \<Rightarrow> (py_error + ton_client_c) \<times> 'e world" where
  "TonClient_new b config w =
     (if ''self'' \<in> fst ` set config
      then (Inl (TypeError ''got multiple values for argument self''), w)
      else
        (let (c, w1) = call_create_context b w;
             m = \<lparr>module_ctx = c\<rparr>
         in case TonClientBase_setup b m (dict_merge TON_CLIENT_DEFAULT_SETUP_client config) w1 of
              (Inl err, w2) \<Rightarrow> (Inl err, w2)
            | (Inr _, w2) \<Rightarrow>
                (Inr \<lparr>priv_ctx = c, base = m, crypto = m, queries = m, contracts = m\<rparr>, w2)))"

text \<open>\<^verbatim>\<open>TonClient.destroy_context(self)\<close>\<close>

definition destroy_context :: "'e bindings \<Rightarrow> ton_client_c \<Rightarrow> 'e world \<Rightarrow> 'e world" where
  "destroy_context b cl w = call_destroy_context b (priv_ctx cl) w"

section \<open>The subscription channel\<close>

text \<open>
  Modelled from the spec: the subscription and event channel (the module
  \<^verbatim>\<open>tonclient.net\<close> with \<^verbatim>\<open>subscribe_collection\<close>, \<^verbatim>\<open>suspend\<close>, \<^verbatim>\<open>resume\<close>,
  \<^verbatim>\<open>unsubscribe\<close>, and the delivery of events to the callback) is not among the sources;
  only its test is. Per subscription the states are Active, Suspended, Active again and
  Unsubscribed (terminal); an event emitted while suspended is dropped, not queued; resume
  continues delivery for subsequent events only; no callback runs after unsubscribe.
\<close>

datatype sub_state = Active | Suspended | Unsubscribed

text \<open>
  Modelled from the spec: the callback is invoked with either an OK payload or an ERROR
  payload (\<^verbatim>\<open>SubscriptionResponseType\<close> in the test; its declaration is not among the
  sources).
\<close>

datatype response_type = OK | ERROR

text \<open>
  Modelled from the spec: what can happen to a subscription: the three calls of the caller,
  an event of the subscribed collection, and an error the engine reports for the
  subscription.
\<close>

datatype 'ev channel_op = Suspend | Resume | Unsubscribe | Event 'ev | Failure 'ev

text \<open>
  Modelled from the spec: a subscription with its filter (\<open>qualifies\<close>) and the callback
  invocations observed so far, oldest first.
\<close>

record 'ev subscription =
  sub_status :: sub_state
  qualifies :: "'ev \<Rightarrow> bool"
  invocations :: "(response_type \<times> 'ev) list"

text \<open>
  Modelled from the spec: one step of the channel. Delivery happens in the state Active
  only; an event is delivered when the filter accepts it.
\<close>

fun channel_step :: "'ev channel_op \<Rightarrow> 'ev subscription \<Rightarrow> 'ev subscription" where
  "channel_step Suspend s =
     (if sub_status s = Active then s\<lparr>sub_status := Suspended\<rparr> else s)"
| "channel_step Resume s =
     (if sub_status s = Suspended then s\<lparr>sub_status := Active\<rparr> else s)"
| "channel_step Unsubscribe s = s\<lparr>sub_status := Unsubscribed\<rparr>"
| "channel_step (Event ev) s =
     (if sub_status s = Active \<and> qualifies s ev
      then s\<lparr>invocations := invocations s @ [(OK, ev)]\<rparr>
      else s)"
| "channel_step (Failure ev) s =
     (if sub_status s = Active
      then s\<lparr>invocations := invocations s @ [(ERROR, ev)]\<rparr>
      else s)"

text \<open>Modelled from the spec: a run of the channel, step after step.\<close>

definition channel_run :: "'ev channel_op list \<Rightarrow> 'ev subscription \<Rightarrow> 'ev subscription" where
  "channel_run ops s = fold channel_step ops s"

section \<open>A small engine for concrete runs\<close>

text \<open>
  An engine that hands out contexts \<open>1, 2, ...\<close>, answers \<^verbatim>\<open>version\<close> on a live
  context with success, any other method on a live context with an error payload, and
  every request on a context that is not live with another error payload. Responses are
  kept by address until they are destroyed.
\<close>

record sim_engine =
  next_ctx :: int
  live :: "ctx list"
  next_ptr :: ptr
  responses :: "(ptr \<times> bool \<times> string) list"

definition sim_reply :: "sim_engine \<Rightarrow> ctx \<Rightarrow> string \<Rightarrow> bool \<times> string" where
  \<open>sim_reply e c m =
     (if c \<notin> set (live e) then (False, ''{"code": 2, "message": "Invalid context handle"}'')
      else if m = ''version'' then (True, ''"0.25.0"'')
      else if m = ''setup'' then (True, ''null'')
      else (False, ''{"code": 1, "message": "Unknown method"}''))\<close>

definition sim_lib :: "sim_engine native_lib" where
  "sim_lib =
     \<lparr>tc_create_context =
        (\<lambda>e. (next_ctx e, e\<lparr>next_ctx := next_ctx e + 1, live := word_of_int (next_ctx e) # live e\<rparr>)),
      tc_destroy_context = (\<lambda>c e. e\<lparr>live := removeAll c (live e)\<rparr>),
      tc_json_request =
        (\<lambda>c m p e. (next_ptr e,
           e\<lparr>next_ptr := Suc (next_ptr e),
             responses := (next_ptr e, sim_reply e c m) # responses e\<rparr>)),
      tc_read_json_response =
        (\<lambda>r e. case map_of (responses e) r of Some rd \<Rightarrow> rd | None \<Rightarrow> (False, [])),
      tc_destroy_json_response = (\<lambda>r e. e\<lparr>responses := filter (\<lambda>(q, _). q \<noteq> r) (responses e)\<rparr>)\<rparr>"

text \<open>The same engine, except that it answers whatever the context is.\<close>

definition lax_lib :: "sim_engine native_lib" where
  "lax_lib = sim_lib\<lparr>tc_json_request :=
     (\<lambda>c m p e. (next_ptr e,
        e\<lparr>next_ptr := Suc (next_ptr e),
          responses := (next_ptr e, sim_reply (e\<lparr>live := [c]\<rparr>) c m) # responses e\<rparr>))\<rparr>"

definition sim_start :: "sim_engine world" where
  "sim_start = \<lparr>engine = \<lparr>next_ctx = 1, live = [], next_ptr = 4096, responses = []\<rparr>, calls = []\<rparr>"

definition sim_client :: "sim_engine ton_client" where
  "sim_client = \<lparr>lib = sim_lib, context' = 1\<rparr>"

definition lax_client :: "sim_engine ton_client" where
  "lax_client = \<lparr>lib = lax_lib, context' = 1\<rparr>"

text \<open>The engine after one \<^verbatim>\<open>tc_create_context\<close>, which returned \<open>1\<close>.\<close>

definition sim_ready :: "sim_engine world" where
  "sim_ready =
     \<lparr>engine = \<lparr>next_ctx = 2, live = [1], next_ptr = 4096, responses = []\<rparr>,
      calls = [TcCreateContext]\<rparr>"

text \<open>
  An engine that answers every request with success and an empty JSON text, and reads that
  decode the JSON text as \<^verbatim>\<open>json.loads\<close> does, which raises on an empty text
  (\<^verbatim>\<open>JSONDecodeError\<close> is a \<^verbatim>\<open>ValueError\<close>).
\<close>

definition quiet_lib :: "sim_engine native_lib" where
  "quiet_lib = sim_lib\<lparr>tc_json_request :=
     (\<lambda>c m p e. (next_ptr e,
        e\<lparr>next_ptr := Suc (next_ptr e),
          responses := (next_ptr e, (True, [])) # responses e\<rparr>))\<rparr>"

definition quiet_client :: "sim_engine ton_client" where
  "quiet_client = \<lparr>lib = quiet_lib, context' = 1\<rparr>"

definition decoding_reads :: interop_reads where
  "decoding_reads =
     \<lparr>read_is_success = (\<lambda>rd. Inr (PBool (fst rd))),
      read_json = (\<lambda>rd. if snd rd = [] then Inl (ValueError ''Expecting value'')
                          else Inr (PStr (snd rd)))\<rparr>"

definition sim_dumps :: "pyvalue \<Rightarrow> string" where
  \<open>sim_dumps v = (case v of PDict [] \<Rightarrow> ''{}'' | PNone \<Rightarrow> ''null'' | _ \<Rightarrow> ''{"...": "..."}'')\<close>

definition sim_load :: "string \<Rightarrow> py_error + sim_engine native_lib" where
  "sim_load lib_path =
     (if lib_path = [] then Inl (OSError ''cannot open shared object file'') else Inr sim_lib)"

definition sim_bindings :: "sim_engine bindings" where
  "sim_bindings =
     \<lparr>bindings_create_context =
        (\<lambda>e. (word_of_int (next_ctx e),
               e\<lparr>next_ctx := next_ctx e + 1, live := word_of_int (next_ctx e) # live e\<rparr>)),
      bindings_destroy_context = (\<lambda>c e. e\<lparr>live := removeAll c (live e)\<rparr>),
      TonModule_request =
        (\<lambda>c m kw e. case sim_reply e c m of
                       (True, js) \<Rightarrow> (Inr (PStr js), e)
                     | (False, js) \<Rightarrow> (Inl (Exception (PStr js)), e))\<rparr>"

section \<open>Library resolution by platform\<close>

lemma suffix_os_path_join: "suffix b (os_path_join sep a b)"
  by (simp add: os_path_join_def suffix_def)

lemma map_of_lib_ext_dict:
  "map_of lib_ext_dict plt =
     (if plt = ''windows'' then Some ''dll'' else if plt = ''darwin'' then Some ''dylib''
      else if plt = ''linux'' then Some ''so'' else None)"
  by (simp add: lib_ext_dict_def)

lemma get_lib_basename_ext:
  "map_of lib_ext_dict (str_lower (platform_system h)) = Some ext \<Longrightarrow>
     \<exists>p. get_lib_basename h = Inr p \<and> suffix (''.'' @ ext) p"
proof -
  assume a: "map_of lib_ext_dict (str_lower (platform_system h)) = Some ext"
  let ?p = "os_path_join (path_sep h) (LIB_DIR h) (LIB_FILENAME @ ''.'' @ ext)"
  have "get_lib_basename h = Inr ?p"
    using a by (simp add: get_lib_basename_def)
  moreover have "suffix (''.'' @ ext) (LIB_FILENAME @ ''.'' @ ext)"
    by (simp add: suffix_def)
  then have "suffix (''.'' @ ext) ?p"
    using suffix_os_path_join suffix_order.trans by blast
  ultimately show ?thesis by blast
qed

text \<open>
  Claim C4. Whatever \<^verbatim>\<open>platform.system()\<close> returns, once lower-cased: for
  \<^verbatim>\<open>windows\<close> the resolved path ends in \<^verbatim>\<open>.dll\<close>, for \<^verbatim>\<open>darwin\<close> in
  \<^verbatim>\<open>.dylib\<close>, for \<^verbatim>\<open>linux\<close> in \<^verbatim>\<open>.so\<close>; for any other name the resolution
  raises a \<^verbatim>\<open>RuntimeError\<close> that names the platform, and creating a client with the
  default path ends with that error and no foreign call made: no context is created.
\<close>

theorem get_lib_basename_by_platform:
  "(str_lower (platform_system h) = ''windows'' \<longrightarrow>
      (\<exists>p. get_lib_basename h = Inr p \<and> suffix ''.dll'' p))
   \<and> (str_lower (platform_system h) = ''darwin'' \<longrightarrow>
      (\<exists>p. get_lib_basename h = Inr p \<and> suffix ''.dylib'' p))
   \<and> (str_lower (platform_system h) = ''linux'' \<longrightarrow>
      (\<exists>p. get_lib_basename h = Inr p \<and> suffix ''.so'' p))
   \<and> (str_lower (platform_system h) \<notin> {''windows'', ''darwin'', ''linux''} \<longrightarrow>
      get_lib_basename h =
        Inl (RuntimeError (''No library for current platform '' @ [CHR 0x22]
               @ str_capitalize (str_lower (platform_system h)) @ [CHR 0x22]))
      \<and> TonClient_default h LoadLibrary w =
          (Inl (RuntimeError (''No library for current platform '' @ [CHR 0x22]
               @ str_capitalize (str_lower (platform_system h)) @ [CHR 0x22])), w))"
proof (intro conjI impI)
  assume "str_lower (platform_system h) = ''windows''"
  then show "\<exists>p. get_lib_basename h = Inr p \<and> suffix ''.dll'' p"
    using get_lib_basename_ext [of h "''dll''"] by (simp add: map_of_lib_ext_dict)
next
  assume "str_lower (platform_system h) = ''darwin''"
  then show "\<exists>p. get_lib_basename h = Inr p \<and> suffix ''.dylib'' p"
    using get_lib_basename_ext [of h "''dylib''"] by (simp add: map_of_lib_ext_dict)
next
  assume "str_lower (platform_system h) = ''linux''"
  then show "\<exists>p. get_lib_basename h = Inr p \<and> suffix ''.so'' p"
    using get_lib_basename_ext [of h "''so''"] by (simp add: map_of_lib_ext_dict)
next
  assume a: "str_lower (platform_system h) \<notin> {''windows'', ''darwin'', ''linux''}"
  then have n: "map_of lib_ext_dict (str_lower (platform_system h)) = None"
    by (simp add: map_of_lib_ext_dict)
  show e: "get_lib_basename h =
        Inl (RuntimeError (''No library for current platform '' @ [CHR 0x22]
               @ str_capitalize (str_lower (platform_system h)) @ [CHR 0x22]))"
    using n by (simp add: get_lib_basename_def)
  show "TonClient_default h LoadLibrary w =
          (Inl (RuntimeError (''No library for current platform '' @ [CHR 0x22]
               @ str_capitalize (str_lower (platform_system h)) @ [CHR 0x22])), w)"
    using e by (simp add: TonClient_default_def)
qed

theorem get_lib_basename_by_platform_witness:
  "str_lower ''Windows'' = ''windows''
   \<and> (\<exists>p. get_lib_basename \<lparr>path_sep = [CHR 0x5C], BASE_DIR = ''C:'', platform_system = ''Windows''\<rparr>
             = Inr p \<and> suffix ''.dll'' p)
   \<and> str_lower ''Darwin'' = ''darwin''
   \<and> (\<exists>p. get_lib_basename \<lparr>path_sep = ''/'', BASE_DIR = ''/opt/tonsdk'', platform_system = ''Darwin''\<rparr>
             = Inr p \<and> suffix ''.dylib'' p)
   \<and> str_lower ''Linux'' = ''linux''
   \<and> (\<exists>p. get_lib_basename \<lparr>path_sep = ''/'', BASE_DIR = ''/opt/tonsdk'', platform_system = ''Linux''\<rparr>
             = Inr p \<and> suffix ''.so'' p)
   \<and> str_lower ''Java'' \<notin> {''windows'', ''darwin'', ''linux''}
   \<and> TonClient_default \<lparr>path_sep = ''/'', BASE_DIR = ''/opt/tonsdk'', platform_system = ''Java''\<rparr>
         sim_load sim_start
       = (Inl (RuntimeError (''No library for current platform '' @ [CHR 0x22] @ ''Java'' @ [CHR 0x22])),
          sim_start)"
proof -
  have l: "str_lower ''Windows'' = ''windows''" "str_lower ''Darwin'' = ''darwin''"
    "str_lower ''Linux'' = ''linux''" "str_lower ''Java'' = ''java''"
    "str_capitalize ''java'' = ''Java''"
    by (simp_all add: str_lower_def str_capitalize_def lower_char_def upper_char_def
          ascii_uppercase_def ascii_lowercase_def)
  show ?thesis
    using get_lib_basename_by_platform
            [of "\<lparr>path_sep = [CHR 0x5C], BASE_DIR = ''C:'', platform_system = ''Windows''\<rparr>"]
          get_lib_basename_by_platform
            [of "\<lparr>path_sep = ''/'', BASE_DIR = ''/opt/tonsdk'', platform_system = ''Darwin''\<rparr>"]
          get_lib_basename_by_platform
            [of "\<lparr>path_sep = ''/'', BASE_DIR = ''/opt/tonsdk'', platform_system = ''Linux''\<rparr>"]
          get_lib_basename_by_platform
            [of "\<lparr>path_sep = ''/'', BASE_DIR = ''/opt/tonsdk'', platform_system = ''Java''\<rparr>"
                sim_load sim_start]
    by (simp add: l)
qed

section \<open>The convenience-format adapter\<close>

text \<open>
  Claim C9. For every string and format tag, \<^verbatim>\<open>_str_type_dict\<close> returns the one-entry
  dict \<^verbatim>\<open>{"base64": string}\<close>, \<^verbatim>\<open>{"hex": string}\<close> or \<^verbatim>\<open>{"text": string}\<close> for
  the tags \<^verbatim>\<open>base64\<close>, \<^verbatim>\<open>hex\<close> and \<^verbatim>\<open>text\<close>, with the string itself as the
  value, and raises \<^verbatim>\<open>ValueError\<close> for every other tag.
\<close>

theorem str_type_dict_adapts:
  "priv_str_type_dict s ''base64'' = Inr (PDict [(''base64'', PStr s)])
   \<and> priv_str_type_dict s ''hex'' = Inr (PDict [(''hex'', PStr s)])
   \<and> priv_str_type_dict s ''text'' = Inr (PDict [(''text'', PStr s)])
   \<and> (fmt \<notin> {''base64'', ''hex'', ''text''} \<longrightarrow>
        priv_str_type_dict s fmt =
          Inl (ValueError (''One of '' @ [CHR 0x27] @ ''base64, hex, text'' @ [CHR 0x27]
                            @ '' should be provided'')))"
  by (simp add: priv_str_type_dict_def TYPE_BASE64_def TYPE_HEX_def TYPE_TEXT_def)

theorem str_type_dict_adapts_witness:
  "''utf8'' \<notin> {''base64'', ''hex'', ''text''}
   \<and> priv_str_type_dict ''00ff'' ''utf8'' =
       Inl (ValueError (''One of '' @ [CHR 0x27] @ ''base64, hex, text'' @ [CHR 0x27]
                            @ '' should be provided''))"
  using str_type_dict_adapts [of "''00ff''" "''utf8''"] by simp

section \<open>The request path of \<^verbatim>\<open>tonsdk/lib.py\<close>\<close>

lemma priv_request_result:
  "fst (priv_request dumps cl m p w) =
     PDict [(''success'', PBool (fst (engine_answer dumps cl m p w))),
            (''result'', PStr (snd (engine_answer dumps cl m p w)))]"
  by (simp add: priv_request_def engine_answer_def ffi_json_request_def
        ffi_read_json_response_def ffi_destroy_json_response_def Let_def split: prod.splits)

lemma priv_request_calls:
  "calls (snd (priv_request dumps cl m p w)) =
     calls w @ [TcJsonRequest (context' cl) m (dumps (py_or p (PDict []))),
                TcReadJsonResponse (response_ptr dumps cl m p w),
                TcDestroyJsonResponse (response_ptr dumps cl m p w)]"
  by (simp add: priv_request_def response_ptr_def ffi_json_request_def
        ffi_read_json_response_def ffi_destroy_json_response_def Let_def split: prod.splits)

lemma priv_request_engine:
  "engine (snd (priv_request dumps cl m p w)) =
     tc_destroy_json_response (lib cl) (response_ptr dumps cl m p w)
       (snd (tc_json_request (lib cl) (context' cl) m (dumps (py_or p (PDict []))) (engine w)))"
  by (simp add: priv_request_def response_ptr_def ffi_json_request_def
        ffi_read_json_response_def ffi_destroy_json_response_def Let_def split: prod.splits)

lemma request_fst:
  "fst (request dumps cl m p raise_exception w) =
     (if raise_exception \<and> \<not> fst (engine_answer dumps cl m p w)
      then Inl (Exception (PStr (snd (engine_answer dumps cl m p w))))
      else Inr (PStr (snd (engine_answer dumps cl m p w))))"
proof -
  obtain r w' where pr: "priv_request dumps cl m p w = (r, w')"
    by (cases "priv_request dumps cl m p w")
  then have r: "r = PDict [(''success'', PBool (fst (engine_answer dumps cl m p w))),
                           (''result'', PStr (snd (engine_answer dumps cl m p w)))]"
    using priv_request_result [of dumps cl m p w] by simp
  show ?thesis
    by (simp add: request_def pr r dict_item_def)
qed

lemma request_snd:
  "snd (request dumps cl m p raise_exception w) = snd (priv_request dumps cl m p w)"
proof -
  obtain r w' where pr: "priv_request dumps cl m p w = (r, w')"
    by (cases "priv_request dumps cl m p w")
  then have r: "r = PDict [(''success'', PBool (fst (engine_answer dumps cl m p w))),
                           (''result'', PStr (snd (engine_answer dumps cl m p w)))]"
    using priv_request_result [of dumps cl m p w] by simp
  show ?thesis
    by (simp add: request_def pr r dict_item_def)
qed

lemma sim_answer_nope:
  "engine_answer sim_dumps sim_client ''nope'' PNone sim_ready
     = (False, ''{'' @ [CHR 0x22] @ ''code'' @ [CHR 0x22] @ '': 1, '' @ [CHR 0x22] @ ''message''
                @ [CHR 0x22] @ '': '' @ [CHR 0x22] @ ''Unknown method'' @ [CHR 0x22] @ ''}'')"
  by (simp add: engine_answer_def sim_client_def sim_lib_def sim_ready_def sim_reply_def
        sim_dumps_def py_or_def)

text \<open>
  Claim C1, as stated, has \<^verbatim>\<open>request\<close> raise a typed client error, never a generic
  failure. What a failed request raises is an instance of \<^verbatim>\<open>Exception\<close> itself,
  Python's generic base class.
\<close>

theorem request_raises_builtin_Exception_counterexample:
  "isl (fst (request sim_dumps sim_client ''nope'' PNone True sim_ready))
   \<and> exception_class (projl (fst (request sim_dumps sim_client ''nope'' PNone True sim_ready)))
       = ''Exception''"
  by (simp add: request_fst sim_answer_nope)

text \<open>
  Claim C1, amended. Whenever the response read from the engine has
  \<^verbatim>\<open>success = false\<close>, \<^verbatim>\<open>request\<close> with the default \<^verbatim>\<open>raise_exception=True\<close>
  raises \<^verbatim>\<open>Exception\<close>, and the exception's single argument is the JSON field of that
  response, unchanged: the engine's error code and message are neither dropped nor
  rewritten.
\<close>

theorem request_raises_engine_payload:
  "\<not> fst (engine_answer dumps cl method params w) \<Longrightarrow>
     dict_get (fst (priv_request dumps cl method params w)) ''success'' = Some (PBool False)
     \<and> fst (request dumps cl method params True w)
         = Inl (Exception (PStr (snd (engine_answer dumps cl method params w))))"
  by (simp add: request_fst priv_request_result)

theorem request_raises_engine_payload_witness:
  "\<not> fst (engine_answer sim_dumps sim_client ''nope'' PNone sim_ready)
   \<and> fst (request sim_dumps sim_client ''nope'' PNone True sim_ready)
       = Inl (Exception (PStr (''{'' @ [CHR 0x22] @ ''code'' @ [CHR 0x22] @ '': 1, '' @ [CHR 0x22]
                @ ''message'' @ [CHR 0x22] @ '': '' @ [CHR 0x22] @ ''Unknown method''
                @ [CHR 0x22] @ ''}'')))"
  using request_raises_engine_payload [of sim_dumps sim_client "''nope''" PNone sim_ready]
  by (simp add: sim_answer_nope)

text \<open>
  Claim C10. With \<^verbatim>\<open>raise_exception=False\<close>, \<^verbatim>\<open>request\<close> never raises, whatever the
  success flag: it returns the \<^verbatim>\<open>result\<close> field of the response dict, which is the JSON
  field the engine gave. The value returned depends on that field only, so an error payload
  comes back like a result.
\<close>

theorem request_without_raise_returns_payload:
  "fst (request dumps cl method params False w)
     = Inr (PStr (snd (engine_answer dumps cl method params w)))
   \<and> dict_get (fst (priv_request dumps cl method params w)) ''result''
     = Some (PStr (snd (engine_answer dumps cl method params w)))"
  by (simp add: request_fst priv_request_result)

lemma priv_request_reading_returns:
  assumes "read_is_success T (engine_answer dumps cl m p w) = Inr s"
    and "read_json T (engine_answer dumps cl m p w) = Inr j"
  shows "fst (priv_request_reading T dumps cl m p w)
           = Inr (PDict [(''success'', s), (''result'', j)])"
    and "calls (snd (priv_request_reading T dumps cl m p w)) =
           calls w @ [TcJsonRequest (context' cl) m (dumps (py_or p (PDict []))),
                      TcReadJsonResponse (response_ptr dumps cl m p w),
                      TcDestroyJsonResponse (response_ptr dumps cl m p w)]"
    and "engine (snd (priv_request_reading T dumps cl m p w)) =
           tc_destroy_json_response (lib cl) (response_ptr dumps cl m p w)
             (snd (tc_json_request (lib cl) (context' cl) m
                     (dumps (py_or p (PDict []))) (engine w)))"
  using assms
  by (simp_all add: priv_request_reading_def engine_answer_def response_ptr_def
        ffi_json_request_def ffi_read_json_response_def ffi_destroy_json_response_def Let_def
        split: prod.splits)

lemma priv_request_reading_plain:
  "priv_request_reading plain_reads dumps cl m p w
     = (Inr (fst (priv_request dumps cl m p w)), snd (priv_request dumps cl m p w))"
  by (simp add: priv_request_reading_def priv_request_def plain_reads_def
        ffi_json_request_def ffi_read_json_response_def ffi_destroy_json_response_def Let_def
        split: prod.splits)

text \<open>
  Claim C5, as stated, has the destroy call made on every exit path, also when decoding the
  response fails. When reading the JSON field raises, \<^verbatim>\<open>_request\<close> ends with that
  exception after \<^verbatim>\<open>tc_json_request\<close> and \<^verbatim>\<open>tc_read_json_response\<close>:
  \<^verbatim>\<open>tc_destroy_json_response\<close> is not called and the engine still holds the response.
\<close>

theorem response_leaked_counterexample:
  "fst (priv_request_reading decoding_reads sim_dumps quiet_client ''setup'' PNone sim_ready)
     = Inl (ValueError ''Expecting value'')
   \<and> calls (snd (priv_request_reading decoding_reads sim_dumps quiet_client ''setup'' PNone
                   sim_ready))
     = [TcCreateContext, TcJsonRequest 1 ''setup'' ''{}'', TcReadJsonResponse 4096]
   \<and> responses (engine (snd (priv_request_reading decoding_reads sim_dumps quiet_client
                                ''setup'' PNone sim_ready)))
     = [(4096, True, [])]"
  by (simp add: priv_request_reading_def decoding_reads_def quiet_client_def quiet_lib_def
        sim_lib_def sim_ready_def sim_dumps_def py_or_def ffi_json_request_def
        ffi_read_json_response_def)

text \<open>
  Claim C5, amended. Every execution of \<^verbatim>\<open>_request\<close> in which the two reads of the
  response return makes exactly three foreign calls, in this order:
  \<^verbatim>\<open>tc_json_request\<close>, which yields the response pointer,
  \<^verbatim>\<open>tc_read_json_response\<close> on that pointer and \<^verbatim>\<open>tc_destroy_json_response\<close> on
  that pointer, whatever the response says; the engine is left in the state after the
  destroy call. With reads that cannot raise this is every execution, and
  \<^verbatim>\<open>request\<close> leaves the same trace whether it returns or raises.
\<close>

theorem response_destroyed_when_reads_return:
  "(read_is_success T (engine_answer dumps cl m p w) = Inr s
      \<and> read_json T (engine_answer dumps cl m p w) = Inr j \<longrightarrow>
      fst (priv_request_reading T dumps cl m p w)
        = Inr (PDict [(''success'', s), (''result'', j)])
      \<and> calls (snd (priv_request_reading T dumps cl m p w)) =
          calls w @ [TcJsonRequest (context' cl) m (dumps (py_or p (PDict []))),
                     TcReadJsonResponse (response_ptr dumps cl m p w),
                     TcDestroyJsonResponse (response_ptr dumps cl m p w)]
      \<and> engine (snd (priv_request_reading T dumps cl m p w)) =
          tc_destroy_json_response (lib cl) (response_ptr dumps cl m p w)
            (snd (tc_json_request (lib cl) (context' cl) m
                    (dumps (py_or p (PDict []))) (engine w))))
   \<and> priv_request_reading plain_reads dumps cl m p w
       = (Inr (fst (priv_request dumps cl m p w)), snd (priv_request dumps cl m p w))
   \<and> calls (snd (priv_request dumps cl m p w)) =
       calls w @ [TcJsonRequest (context' cl) m (dumps (py_or p (PDict []))),
                  TcReadJsonResponse (response_ptr dumps cl m p w),
                  TcDestroyJsonResponse (response_ptr dumps cl m p w)]
   \<and> engine (snd (priv_request dumps cl m p w)) =
       tc_destroy_json_response (lib cl) (response_ptr dumps cl m p w)
         (snd (tc_json_request (lib cl) (context' cl) m
                 (dumps (py_or p (PDict []))) (engine w)))
   \<and> snd (request dumps cl m p raise_exception w) = snd (priv_request dumps cl m p w)"
  using priv_request_reading_returns [of T dumps cl m p w s j]
  by (simp add: priv_request_reading_plain priv_request_calls priv_request_engine request_snd)

theorem response_destroyed_when_reads_return_witness:
  "read_is_success decoding_reads (engine_answer sim_dumps sim_client ''nope'' PNone sim_ready)
     = Inr (PBool False)
   \<and> (\<exists>j. read_json decoding_reads (engine_answer sim_dumps sim_client ''nope'' PNone sim_ready)
            = Inr j)
   \<and> calls (snd (priv_request_reading decoding_reads sim_dumps sim_client ''nope'' PNone
                   sim_ready))
       = [TcCreateContext, TcJsonRequest 1 ''nope'' ''{}'', TcReadJsonResponse 4096,
          TcDestroyJsonResponse 4096]
   \<and> responses (engine (snd (priv_request_reading decoding_reads sim_dumps sim_client ''nope''
                                PNone sim_ready))) = []"
proof -
  let ?a = "engine_answer sim_dumps sim_client ''nope'' PNone sim_ready"
  have s: "read_is_success decoding_reads ?a = Inr (PBool False)"
    by (simp add: sim_answer_nope decoding_reads_def)
  have j: "read_json decoding_reads ?a = Inr (PStr (snd ?a))"
    by (simp add: sim_answer_nope decoding_reads_def)
  have r: "response_ptr sim_dumps sim_client ''nope'' PNone sim_ready = 4096"
    by (simp add: response_ptr_def sim_client_def sim_lib_def sim_ready_def)
  have d: "sim_dumps (py_or PNone (PDict [])) = ''{}''"
    by (simp add: sim_dumps_def py_or_def)
  have c: "calls sim_ready = [TcCreateContext]" "context' sim_client = 1"
    by (simp_all add: sim_ready_def sim_client_def)
  have e: "responses (tc_destroy_json_response (lib sim_client) 4096
             (snd (tc_json_request (lib sim_client) 1 ''nope'' ''{}'' (engine sim_ready)))) = []"
    by (simp add: sim_client_def sim_lib_def sim_ready_def)
  show ?thesis
    using response_destroyed_when_reads_return
            [where T = decoding_reads and dumps = sim_dumps and cl = sim_client
               and m = "''nope''" and p = PNone and w = sim_ready
               and s = "PBool False" and j = "PStr (snd ?a)" and raise_exception = True]
          s j r d c e
    by simp
qed

text \<open>
  Claim C6, as stated, asks for an \<^verbatim>\<open>error\<close> entry when success is false and for no
  \<^verbatim>\<open>result\<close> entry then. A failed request gives a dict with a \<^verbatim>\<open>result\<close> entry and
  no \<^verbatim>\<open>error\<close> entry.
\<close>

theorem envelope_error_key_counterexample:
  "dict_get (fst (priv_request sim_dumps sim_client ''nope'' PNone sim_ready)) ''success''
     = Some (PBool False)
   \<and> dict_get (fst (priv_request sim_dumps sim_client ''nope'' PNone sim_ready)) ''error'' = None
   \<and> dict_get (fst (priv_request sim_dumps sim_client ''nope'' PNone sim_ready)) ''result''
     \<noteq> None"
  by (simp add: priv_request_result sim_answer_nope)

text \<open>
  Claim C6, amended. The dict that \<^verbatim>\<open>_request\<close> returns has exactly the two keys
  \<^verbatim>\<open>success\<close> and \<^verbatim>\<open>result\<close>, whatever the success flag: \<^verbatim>\<open>success\<close> is the
  boolean flag of the response, \<^verbatim>\<open>result\<close> is its JSON field (the result on success, the
  error payload on failure), and there is never an \<^verbatim>\<open>error\<close> key.
\<close>

theorem envelope_success_and_result:
  "dict_keys (fst (priv_request dumps cl method params w)) = [''success'', ''result'']
   \<and> dict_get (fst (priv_request dumps cl method params w)) ''success''
       = Some (PBool (fst (engine_answer dumps cl method params w)))
   \<and> dict_get (fst (priv_request dumps cl method params w)) ''result''
       = Some (PStr (snd (engine_answer dumps cl method params w)))
   \<and> dict_get (fst (priv_request dumps cl method params w)) ''error'' = None"
  by (simp add: priv_request_result)

section \<open>Client creation in \<^verbatim>\<open>tonsdk/client.py\<close>\<close>

lemma map_of_dict_set: "map_of (dict_set k v d) = (map_of d)(k \<mapsto> v)"
  by (induction d) (auto simp: fun_eq_iff)

lemma keys_dict_set: "fst ` set (dict_set k v d) = insert k (fst ` set d)"
proof -
  have "dom (map_of (dict_set k v d)) = insert k (dom (map_of d))"
    by (simp add: map_of_dict_set)
  then show ?thesis
    by (simp add: dom_map_of_conv_image_fst)
qed

lemma map_of_dict_merge:
  "distinct (map fst b) \<Longrightarrow> map_of (dict_merge a b) = map_of a ++ map_of b"
  unfolding dict_merge_def
proof (induction b arbitrary: a)
  case Nil
  then show ?case by simp
next
  case (Cons kv b)
  obtain k v where kv: "kv = (k, v)" by (cases kv)
  from Cons.prems kv have d: "distinct (map fst b)" and n: "k \<notin> fst ` set b"
    by auto
  from n have nk: "map_of b k = None"
    by (simp add: map_of_eq_None_iff)
  have "map_of (fold (\<lambda>(k, v) d. dict_set k v d) (kv # b) a)
          = map_of (fold (\<lambda>(k, v) d. dict_set k v d) b (dict_set k v a))"
    by (simp add: kv)
  also have "\<dots> = map_of (dict_set k v a) ++ map_of b"
    by (rule Cons.IH [OF d])
  also have "\<dots> = (map_of a)(k \<mapsto> v) ++ map_of b"
    by (simp only: map_of_dict_set)
  also have "\<dots> = map_of a ++ map_of (kv # b)"
  proof (rule ext)
    fix x
    show "((map_of a)(k \<mapsto> v) ++ map_of b) x = (map_of a ++ map_of (kv # b)) x"
      using nk by (cases "map_of b x") (auto simp: kv map_add_def)
  qed
  finally show ?case .
qed

lemma keys_dict_merge: "fst ` set (dict_merge a b) = fst ` set a \<union> fst ` set b"
  unfolding dict_merge_def
proof (induction b arbitrary: a)
  case Nil
  then show ?case by simp
next
  case (Cons kv b)
  obtain k v where kv: "kv = (k, v)" by (cases kv)
  have "fst ` set (fold (\<lambda>(k, v) d. dict_set k v d) (kv # b) a)
          = fst ` set (fold (\<lambda>(k, v) d. dict_set k v d) b (dict_set k v a))"
    by (simp add: kv)
  also have "\<dots> = fst ` set (dict_set k v a) \<union> fst ` set b"
    by (rule Cons.IH)
  also have "\<dots> = insert k (fst ` set a) \<union> fst ` set b"
    by (simp only: keys_dict_set)
  also have "\<dots> = fst ` set a \<union> fst ` set (kv # b)"
    by (simp add: kv)
  finally show ?case .
qed

lemma default_keys_client:
  "fst ` set TON_CLIENT_DEFAULT_SETUP_client =
     {''servers'', ''messageRetriesCount'', ''messageExpirationTimeout'',
      ''messageExpirationTimeoutGrowFactor'', ''messageProcessingTimeout'',
      ''messageProcessingTimeoutGrowFactor'', ''waitForTimeout'', ''accessKey''}"
  by (simp add: TON_CLIENT_DEFAULT_SETUP_client_def)

lemma TonClientBase_setup_calls:
  "''method'' \<notin> fst ` set settings \<Longrightarrow>
     calls (snd (TonClientBase_setup b m settings w))
       = calls w @ [ModuleRequest (module_ctx m) ''setup'' settings]"
  by (simp add: TonClientBase_setup_def call_request_def Let_def split: prod.splits sum.splits)

lemma TonClient_new_calls:
  assumes "''self'' \<notin> fst ` set config"
    and "''method'' \<notin> fst ` set (dict_merge TON_CLIENT_DEFAULT_SETUP_client config)"
  shows "calls (snd (TonClient_new b config w)) =
           calls w @ [TcCreateContext,
                      ModuleRequest (fst (bindings_create_context b (engine w))) ''setup''
                        (dict_merge TON_CLIENT_DEFAULT_SETUP_client config)]"
proof -
  let ?merged = "dict_merge TON_CLIENT_DEFAULT_SETUP_client config"
  obtain c w1 where cw: "call_create_context b w = (c, w1)"
    by (cases "call_create_context b w")
  then have c: "c = fst (bindings_create_context b (engine w))"
    and w1: "calls w1 = calls w @ [TcCreateContext]"
    by (auto simp: call_create_context_def Let_def split: prod.splits)
  have "snd (TonClient_new b config w)
          = snd (TonClientBase_setup b \<lparr>module_ctx = c\<rparr> ?merged w1)"
    using assms(1) by (simp add: TonClient_new_def cw Let_def split: prod.splits sum.splits)
  then show ?thesis
    using TonClientBase_setup_calls [OF assms(2), of b "\<lparr>module_ctx = c\<rparr>" w1]
    by (simp add: w1 c)
qed

text \<open>
  Claim C3, as stated, speaks of every configuration mapping. A configuration with the key
  \<^verbatim>\<open>method\<close> makes \<^verbatim>\<open>setup\<close> pass that keyword twice: the context is created, a
  \<^verbatim>\<open>TypeError\<close> is raised and no \<^verbatim>\<open>setup\<close> request is issued.
\<close>

theorem client_creation_method_key_counterexample:
  "fst (TonClient_new sim_bindings [(''method'', PStr ''x'')] sim_start)
     = Inl (TypeError ''got multiple values for keyword argument method'')
   \<and> calls (snd (TonClient_new sim_bindings [(''method'', PStr ''x'')] sim_start))
     = [TcCreateContext]"
  by (simp add: TonClient_new_def TonClientBase_setup_def call_create_context_def
        sim_bindings_def sim_start_def keys_dict_merge)

text \<open>
  Claim C3, amended. For every configuration (a dict, so its keys are distinct) without the
  keys \<^verbatim>\<open>method\<close> and \<^verbatim>\<open>self\<close>: in the merged configuration every key the caller
  gave has the caller's value, every other key has what the defaults have for it, and
  client creation makes exactly two calls, \<^verbatim>\<open>tc_create_context\<close> and then one
  \<^verbatim>\<open>setup\<close> request on the context just created, carrying the merged configuration.
  \<^verbatim>\<open>setup\<close> of \<^verbatim>\<open>lib.py\<close> likewise sends exactly one \<^verbatim>\<open>setup\<close> request to
  the engine, on the client's context, with the settings it was given.
\<close>

theorem client_creation_merges_and_sets_up:
  assumes "distinct (map fst config)"
    and "''method'' \<notin> fst ` set config"
    and "''self'' \<notin> fst ` set config"
  shows "(\<forall>k v. (k, v) \<in> set config \<longrightarrow>
            map_of (dict_merge TON_CLIENT_DEFAULT_SETUP_client config) k = Some v)
       \<and> (\<forall>k. k \<notin> fst ` set config \<longrightarrow>
            map_of (dict_merge TON_CLIENT_DEFAULT_SETUP_client config) k
              = map_of TON_CLIENT_DEFAULT_SETUP_client k)
       \<and> calls (snd (TonClient_new b config w)) =
           calls w @ [TcCreateContext,
                      ModuleRequest (fst (bindings_create_context b (engine w))) ''setup''
                        (dict_merge TON_CLIENT_DEFAULT_SETUP_client config)]
       \<and> filter (\<lambda>c. \<exists>x p. c = TcJsonRequest x ''setup'' p)
             (drop (length (calls w')) (calls (snd (TonClient_setup dumps cl settings w'))))
           = [TcJsonRequest (context' cl) ''setup'' (dumps (py_or settings (PDict [])))]"
proof (intro conjI allI impI)
  fix k v
  assume "(k, v) \<in> set config"
  then have "map_of config k = Some v"
    using assms(1) by simp
  then show "map_of (dict_merge TON_CLIENT_DEFAULT_SETUP_client config) k = Some v"
    by (simp add: map_of_dict_merge [OF assms(1)])
next
  fix k
  assume "k \<notin> fst ` set config"
  then have "map_of config k = None"
    by (simp add: map_of_eq_None_iff)
  then show "map_of (dict_merge TON_CLIENT_DEFAULT_SETUP_client config) k
              = map_of TON_CLIENT_DEFAULT_SETUP_client k"
    by (simp add: map_of_dict_merge [OF assms(1)] map_add_def)
next
  have "''method'' \<notin> fst ` set (dict_merge TON_CLIENT_DEFAULT_SETUP_client config)"
    using assms(2) by (simp add: keys_dict_merge default_keys_client)
  then show "calls (snd (TonClient_new b config w)) =
           calls w @ [TcCreateContext,
                      ModuleRequest (fst (bindings_create_context b (engine w))) ''setup''
                        (dict_merge TON_CLIENT_DEFAULT_SETUP_client config)]"
    using TonClient_new_calls [OF assms(3)] by simp
next
  show "filter (\<lambda>c. \<exists>x p. c = TcJsonRequest x ''setup'' p)
             (drop (length (calls w')) (calls (snd (TonClient_setup dumps cl settings w'))))
           = [TcJsonRequest (context' cl) ''setup'' (dumps (py_or settings (PDict [])))]"
    by (simp add: TonClient_setup_def request_snd priv_request_calls)
qed

theorem client_creation_merges_and_sets_up_witness:
  "distinct (map fst [(''servers'', PList [PStr ''net.ton.dev'']), (''accessKey'', PStr ''k'')])
   \<and> ''method'' \<notin> fst ` set [(''servers'', PList [PStr ''net.ton.dev'']), (''accessKey'', PStr ''k'')]
   \<and> ''self'' \<notin> fst ` set [(''servers'', PList [PStr ''net.ton.dev'']), (''accessKey'', PStr ''k'')]
   \<and> map_of (dict_merge TON_CLIENT_DEFAULT_SETUP_client
               [(''servers'', PList [PStr ''net.ton.dev'']), (''accessKey'', PStr ''k'')])
        ''servers'' = Some (PList [PStr ''net.ton.dev''])
   \<and> map_of (dict_merge TON_CLIENT_DEFAULT_SETUP_client
               [(''servers'', PList [PStr ''net.ton.dev'']), (''accessKey'', PStr ''k'')])
        ''waitForTimeout'' = Some (PInt 30000)
   \<and> calls (snd (TonClient_new sim_bindings
               [(''servers'', PList [PStr ''net.ton.dev'']), (''accessKey'', PStr ''k'')] sim_start))
       = [TcCreateContext,
          ModuleRequest 1 ''setup''
            (dict_merge TON_CLIENT_DEFAULT_SETUP_client
               [(''servers'', PList [PStr ''net.ton.dev'']), (''accessKey'', PStr ''k'')])]"
proof -
  let ?config = "[(''servers'', PList [PStr ''net.ton.dev'']), (''accessKey'', PStr ''k'')]"
  have h: "distinct (map fst ?config)" "''method'' \<notin> fst ` set ?config"
    "''self'' \<notin> fst ` set ?config"
    by simp_all
  have d: "map_of TON_CLIENT_DEFAULT_SETUP_client ''waitForTimeout'' = Some (PInt 30000)"
    by (simp add: TON_CLIENT_DEFAULT_SETUP_client_def)
  have c: "fst (bindings_create_context sim_bindings (engine sim_start)) = 1"
    "calls sim_start = []"
    by (simp_all add: sim_bindings_def sim_start_def)
  show ?thesis
    using client_creation_merges_and_sets_up
            [OF h, where b = sim_bindings and w = sim_start and w' = sim_ready
               and dumps = sim_dumps and cl = sim_client and settings = PNone] h d c
    by auto
qed

section \<open>Requests after \<^verbatim>\<open>_destroy_context\<close>\<close>

lemma sim_answer_after_destroy:
  "engine_answer sim_dumps sim_client ''version'' PNone
     (priv_destroy_context sim_client (context' sim_client) sim_ready)
     = (False, ''{'' @ [CHR 0x22] @ ''code'' @ [CHR 0x22] @ '': 2, '' @ [CHR 0x22] @ ''message''
                @ [CHR 0x22] @ '': '' @ [CHR 0x22] @ ''Invalid context handle'' @ [CHR 0x22]
                @ ''}'')"
  by (simp add: engine_answer_def sim_client_def sim_lib_def sim_ready_def sim_reply_def
        sim_dumps_def py_or_def priv_destroy_context_def ffi_destroy_context_def)

lemma lax_answer_after_destroy:
  "engine_answer sim_dumps lax_client ''version'' PNone
     (priv_destroy_context lax_client (context' lax_client) sim_ready)
     = (True, [CHR 0x22] @ ''0.25.0'' @ [CHR 0x22])"
  by (simp add: engine_answer_def lax_client_def lax_lib_def sim_lib_def sim_ready_def
        sim_reply_def sim_dumps_def py_or_def priv_destroy_context_def ffi_destroy_context_def)

text \<open>
  Claim C2, as stated, lets every request on a destroyed context fail with a
  \<^verbatim>\<open>ContextInvalid\<close> error. With an engine that still answers, the request returns the
  engine's result; with an engine that rejects the handle, what is raised is
  \<^verbatim>\<open>Exception\<close> with the engine's payload.
\<close>

theorem request_after_destroy_counterexample:
  "fst (request sim_dumps lax_client ''version'' PNone True
          (priv_destroy_context lax_client (context' lax_client) sim_ready))
     = Inr (PStr ([CHR 0x22] @ ''0.25.0'' @ [CHR 0x22]))
   \<and> fst (request sim_dumps sim_client ''version'' PNone True
          (priv_destroy_context sim_client (context' sim_client) sim_ready))
     = Inl (Exception (PStr (''{'' @ [CHR 0x22] @ ''code'' @ [CHR 0x22] @ '': 2, '' @ [CHR 0x22]
              @ ''message'' @ [CHR 0x22] @ '': '' @ [CHR 0x22] @ ''Invalid context handle''
              @ [CHR 0x22] @ ''}'')))"
  by (simp add: request_fst lax_answer_after_destroy sim_answer_after_destroy)

text \<open>
  Claim C2, amended. Destroying a context is one call of the engine's
  \<^verbatim>\<open>tc_destroy_context\<close> on the handle, in \<^verbatim>\<open>lib.py\<close> and in \<^verbatim>\<open>client.py\<close>
  alike; the client object keeps its handle and carries no mark. A later request is passed
  to the engine with the same handle, and its outcome is the engine's answer: the payload is
  returned when the engine reports success, and \<^verbatim>\<open>Exception\<close> with the engine's
  payload is raised when it reports failure.
\<close>

theorem request_after_destroy_is_forwarded:
  "calls (priv_destroy_context cl (context' cl) w) = calls w @ [TcDestroyContext (context' cl)]
   \<and> engine (priv_destroy_context cl (context' cl) w)
       = tc_destroy_context (lib cl) (context' cl) (engine w)
   \<and> calls (destroy_context b c w) = calls w @ [TcDestroyContext (priv_ctx c)]
   \<and> calls (snd (request dumps cl m p True (priv_destroy_context cl (context' cl) w)))
       = calls w @ [TcDestroyContext (context' cl),
                    TcJsonRequest (context' cl) m (dumps (py_or p (PDict []))),
                    TcReadJsonResponse
                      (response_ptr dumps cl m p
                         (priv_destroy_context cl (context' cl) w)),
                    TcDestroyJsonResponse
                      (response_ptr dumps cl m p
                         (priv_destroy_context cl (context' cl) w))]
   \<and> (fst (engine_answer dumps cl m p (priv_destroy_context cl (context' cl) w)) \<longrightarrow>
        fst (request dumps cl m p True (priv_destroy_context cl (context' cl) w))
          = Inr (PStr (snd (engine_answer dumps cl m p
                              (priv_destroy_context cl (context' cl) w)))))
   \<and> (\<not> fst (engine_answer dumps cl m p (priv_destroy_context cl (context' cl) w)) \<longrightarrow>
        fst (request dumps cl m p True (priv_destroy_context cl (context' cl) w))
          = Inl (Exception (PStr (snd (engine_answer dumps cl m p
                              (priv_destroy_context cl (context' cl) w))))))"
  by (simp add: request_fst request_snd priv_request_calls priv_destroy_context_def
        ffi_destroy_context_def destroy_context_def call_destroy_context_def)

theorem request_after_destroy_is_forwarded_witness:
  "fst (engine_answer sim_dumps lax_client ''version'' PNone
          (priv_destroy_context lax_client (context' lax_client) sim_ready))
   \<and> fst (request sim_dumps lax_client ''version'' PNone True
            (priv_destroy_context lax_client (context' lax_client) sim_ready))
       = Inr (PStr ([CHR 0x22] @ ''0.25.0'' @ [CHR 0x22]))
   \<and> \<not> fst (engine_answer sim_dumps sim_client ''version'' PNone
          (priv_destroy_context sim_client (context' sim_client) sim_ready))
   \<and> (\<exists>payload. fst (request sim_dumps sim_client ''version'' PNone True
            (priv_destroy_context sim_client (context' sim_client) sim_ready))
       = Inl (Exception (PStr payload)))"
  using request_after_destroy_is_forwarded
          [where cl = lax_client and w = sim_ready and dumps = sim_dumps
             and m = "''version''" and p = PNone]
        request_after_destroy_is_forwarded
          [where cl = sim_client and w = sim_ready and dumps = sim_dumps
             and m = "''version''" and p = PNone]
  by (simp add: lax_answer_after_destroy sim_answer_after_destroy)

section \<open>The default configuration\<close>

text \<open>
  Claim C7. The default configuration of \<^verbatim>\<open>client.py\<close> has exactly eight entries: the
  endpoint list \<^verbatim>\<open>servers\<close>, message retry count 1, message expiration timeout 50000
  with growth factor 1.5, message processing timeout 50000 with growth factor 1.5, wait-for
  timeout 30000 and an empty access key. The defaults of \<^verbatim>\<open>lib.py\<close> have the same seven
  values after the first entry, which there is \<^verbatim>\<open>baseUrl\<close>.
\<close>

theorem default_setup_values:
  "map fst TON_CLIENT_DEFAULT_SETUP_client =
     [''servers'', ''messageRetriesCount'', ''messageExpirationTimeout'',
      ''messageExpirationTimeoutGrowFactor'', ''messageProcessingTimeout'',
      ''messageProcessingTimeoutGrowFactor'', ''waitForTimeout'', ''accessKey'']
   \<and> map_of TON_CLIENT_DEFAULT_SETUP_client ''servers'' = Some (PList [PStr ''http://localhost''])
   \<and> map_of TON_CLIENT_DEFAULT_SETUP_client ''messageRetriesCount'' = Some (PInt 1)
   \<and> map_of TON_CLIENT_DEFAULT_SETUP_client ''messageExpirationTimeout'' = Some (PInt 50000)
   \<and> map_of TON_CLIENT_DEFAULT_SETUP_client ''messageExpirationTimeoutGrowFactor''
       = Some (PFloat (3 / 2))
   \<and> map_of TON_CLIENT_DEFAULT_SETUP_client ''messageProcessingTimeout'' = Some (PInt 50000)
   \<and> map_of TON_CLIENT_DEFAULT_SETUP_client ''messageProcessingTimeoutGrowFactor''
       = Some (PFloat (3 / 2))
   \<and> map_of TON_CLIENT_DEFAULT_SETUP_client ''waitForTimeout'' = Some (PInt 30000)
   \<and> map_of TON_CLIENT_DEFAULT_SETUP_client ''accessKey'' = Some (PStr [])
   \<and> map fst TON_CLIENT_DEFAULT_SETUP = ''baseUrl'' # tl (map fst TON_CLIENT_DEFAULT_SETUP_client)
   \<and> map_of TON_CLIENT_DEFAULT_SETUP ''baseUrl'' = Some (PStr ''net.ton.dev'')
   \<and> tl TON_CLIENT_DEFAULT_SETUP = tl TON_CLIENT_DEFAULT_SETUP_client"
  by (simp add: TON_CLIENT_DEFAULT_SETUP_client_def TON_CLIENT_DEFAULT_SETUP_def
        DEVNET_BASE_URL_def)

section \<open>Suspend and resume\<close>

lemma channel_run_append:
  "channel_run (xs @ ys) s = channel_run ys (channel_run xs s)"
  by (simp add: channel_run_def)

lemma channel_run_events_suspended:
  "sub_status s = Suspended \<Longrightarrow> channel_run (map Event evs) s = s"
  by (induction evs) (simp_all add: channel_run_def)

lemma channel_run_events_active:
  "sub_status s = Active \<Longrightarrow>
     channel_run (map Event evs) s
       = s\<lparr>invocations := invocations s @ map (Pair OK) (filter (qualifies s) evs)\<rparr>"
proof (induction evs arbitrary: s)
  case Nil
  then show ?case by (simp add: channel_run_def)
next
  case (Cons ev evs)
  let ?s = "channel_step (Event ev) s"
  have a: "sub_status ?s = Active" and q: "qualifies ?s = qualifies s"
    using Cons.prems by simp_all
  have "channel_run (map Event (ev # evs)) s = channel_run (map Event evs) ?s"
    by (simp add: channel_run_def)
  also have "\<dots> = ?s\<lparr>invocations := invocations ?s @ map (Pair OK) (filter (qualifies ?s) evs)\<rparr>"
    by (rule Cons.IH [OF a])
  also have "\<dots> = s\<lparr>invocations := invocations s
                        @ map (Pair OK) (filter (qualifies s) (ev # evs))\<rparr>"
    using Cons.prems by simp
  finally show ?case .
qed

lemma channel_run_suspend_resume:
  assumes "sub_status s = Active"
  shows "channel_run (Suspend # map Event dropped @ [Resume]) s = s"
proof -
  let ?s = "s\<lparr>sub_status := Suspended\<rparr>"
  have "channel_run (Suspend # map Event dropped @ [Resume]) s
          = channel_run [Resume] (channel_run (map Event dropped) ?s)"
    using assms by (simp add: channel_run_def)
  also have "\<dots> = channel_run [Resume] ?s"
    by (simp add: channel_run_events_suspended)
  also have "\<dots> = s"
    using assms by (simp add: channel_run_def)
  finally show ?thesis .
qed

text \<open>
  Claim C8. An event emitted while the subscription is suspended leaves no trace: the run
  that follows is the run without that event, so the callback is never invoked for it, also
  not after resume. While the subscription is active, every qualifying event is delivered to
  the callback with type OK and the subscription stays active. Hence, for any events before
  a suspend, any events during the suspension and any events after the resume, the callback
  invocations are those for the qualifying events before and after, in order, and none for
  the events in between. In the scenario suspend, one qualifying event, resume, a second
  qualifying event, the callback is invoked exactly once, with the second event; with one
  more qualifying event before the suspend, as in the test, it is invoked for that event and
  for the last one.
\<close>

theorem suspended_events_dropped:
  "(sub_status s = Suspended \<longrightarrow>
      channel_run (Event ev # ops) s = channel_run ops s)
   \<and> (sub_status s = Active \<and> qualifies s ev \<longrightarrow>
      channel_run (Event ev # ops) s
        = channel_run ops (s\<lparr>invocations := invocations s @ [(OK, ev)]\<rparr>))
   \<and> (sub_status s = Suspended \<longrightarrow>
      channel_run (map Event dropped @ Resume # map Event later) s
        = s\<lparr>sub_status := Active,
             invocations := invocations s @ map (Pair OK) (filter (qualifies s) later)\<rparr>)
   \<and> (sub_status s = Active \<longrightarrow>
      channel_run (map Event before @ Suspend # map Event dropped @ Resume # map Event later) s
        = s\<lparr>invocations := invocations s @ map (Pair OK) (filter (qualifies s) before)
                              @ map (Pair OK) (filter (qualifies s) later)\<rparr>)
   \<and> (sub_status s = Suspended \<and> qualifies s ev \<longrightarrow>
      invocations (channel_run [Resume, Event ev] s) = invocations s @ [(OK, ev)])
   \<and> (sub_status s = Active \<and> invocations s = [] \<and> qualifies s ev_first \<and> qualifies s ev_second \<longrightarrow>
      invocations (channel_run [Suspend, Event ev_first, Resume, Event ev_second] s) = [(OK, ev_second)])
   \<and> (sub_status s = Active \<and> invocations s = [] \<and> qualifies s ev_before
        \<and> qualifies s ev_first \<and> qualifies s ev_second \<longrightarrow>
      invocations (channel_run [Event ev_before, Suspend, Event ev_first, Resume, Event ev_second] s)
        = [(OK, ev_before), (OK, ev_second)])"
proof (intro conjI impI)
  assume "sub_status s = Suspended"
  then show "channel_run (Event ev # ops) s = channel_run ops s"
    by (simp add: channel_run_def)
next
  assume "sub_status s = Active \<and> qualifies s ev"
  then show "channel_run (Event ev # ops) s
        = channel_run ops (s\<lparr>invocations := invocations s @ [(OK, ev)]\<rparr>)"
    by (simp add: channel_run_def)
next
  assume a: "sub_status s = Suspended"
  let ?s = "s\<lparr>sub_status := Active\<rparr>"
  have "channel_run (map Event dropped @ Resume # map Event later) s
          = channel_run (map Event later) (channel_run [Resume] (channel_run (map Event dropped) s))"
    by (simp add: channel_run_def)
  also have "\<dots> = channel_run (map Event later) ?s"
    using a by (simp add: channel_run_events_suspended) (simp add: channel_run_def)
  also have "\<dots> = ?s\<lparr>invocations := invocations ?s @ map (Pair OK) (filter (qualifies ?s) later)\<rparr>"
    by (rule channel_run_events_active) simp
  finally show "channel_run (map Event dropped @ Resume # map Event later) s
        = s\<lparr>sub_status := Active,
             invocations := invocations s @ map (Pair OK) (filter (qualifies s) later)\<rparr>"
    by simp
next
  assume a: "sub_status s = Active"
  let ?s = "s\<lparr>invocations := invocations s @ map (Pair OK) (filter (qualifies s) before)\<rparr>"
  have b: "sub_status ?s = Active" using a by simp
  have "channel_run (map Event before @ Suspend # map Event dropped @ Resume # map Event later) s
          = channel_run (map Event later)
              (channel_run (Suspend # map Event dropped @ [Resume])
                 (channel_run (map Event before) s))"
    by (simp add: channel_run_def)
  also have "\<dots> = channel_run (map Event later) ?s"
    by (simp only: channel_run_events_active [OF a] channel_run_suspend_resume [OF b])
  also have "\<dots> = ?s\<lparr>invocations := invocations ?s @ map (Pair OK) (filter (qualifies ?s) later)\<rparr>"
    by (rule channel_run_events_active [OF b])
  finally show "channel_run (map Event before @ Suspend # map Event dropped @ Resume # map Event later) s
        = s\<lparr>invocations := invocations s @ map (Pair OK) (filter (qualifies s) before)
                              @ map (Pair OK) (filter (qualifies s) later)\<rparr>"
    by simp
qed (simp_all add: channel_run_def)

theorem suspended_events_dropped_witness:
  "sub_status \<lparr>sub_status = Suspended, qualifies = (\<lambda>n::nat. 5 \<le> n), invocations = [(OK, 7)]\<rparr>
     = Suspended
   \<and> invocations (channel_run [Event 8, Resume, Event 9, Event 3, Event 10]
        \<lparr>sub_status = Suspended, qualifies = (\<lambda>n::nat. 5 \<le> n), invocations = [(OK, 7)]\<rparr>)
       = [(OK, 7), (OK, 9), (OK, 10)]
   \<and> sub_status \<lparr>sub_status = Active, qualifies = (\<lambda>n::nat. 5 \<le> n), invocations = []\<rparr> = Active
   \<and> channel_run [Event 6, Suspend, Event 8, Resume, Event 9]
        \<lparr>sub_status = Active, qualifies = (\<lambda>n::nat. 5 \<le> n), invocations = []\<rparr>
       = \<lparr>sub_status = Active, qualifies = (\<lambda>n::nat. 5 \<le> n),
          invocations = [(OK, 6), (OK, 9)]\<rparr>
   \<and> invocations (channel_run [Suspend, Event 8, Resume, Event 9]
        \<lparr>sub_status = Active, qualifies = (\<lambda>n::nat. 5 \<le> n), invocations = []\<rparr>)
       = [(OK, 9)]"
  using suspended_events_dropped
          [where s = "\<lparr>sub_status = Suspended, qualifies = (\<lambda>n::nat. 5 \<le> n),
                         invocations = [(OK, 7)]\<rparr>"
             and ev = 8 and ops = "[Resume, Event 9, Event 3, Event 10]"
             and dropped = "[8]" and later = "[9, 3, 10]" and before = "[]"
             and ev_before = 6 and ev_first = 8 and ev_second = 9]
        suspended_events_dropped
          [where s = "\<lparr>sub_status = Active, qualifies = (\<lambda>n::nat. 5 \<le> n),
                         invocations = []\<rparr>"
             and ev = 6 and ops = "[Suspend, Event 8, Resume, Event 9]"
             and dropped = "[8]" and later = "[9]" and before = "[6]"
             and ev_before = 6 and ev_first = 8 and ev_second = 9]
  by (simp add: channel_run_def)

end
